theory Spec2Isabelle
  imports Complex_Main "HOL-Library.Multiset" "HOL-Library.AList"
begin

section \<open>Errors\<close>

text \<open>
  The Python exceptions that the modelled functions of \<^verbatim>\<open>feature_selection.py\<close> can
  raise.  A function that may raise returns \<open>py_error + 'a\<close>, with \<open>Inl\<close> for the
  exception.
\<close>

datatype py_error = ValueError | KeyError | TypeError | AttributeError

section \<open>Feature Ranker: \<^verbatim>\<open>select_features\<close>\<close>

text \<open>
  \<^verbatim>\<open>
  importances = rf.feature_importances_
  ordered = []
  for feature, importance in zip(X.columns, importances):
      ordered.append((feature, importance))
  ordered.sort(key=lambda x: x[1], reverse=True)
  return ordered
  \<close>
  Only the importance vector of the model and the column names of the table are read.
  Importances are finite floats; their order is the order of the rationals.
  \<^verbatim>\<open>list.sort\<close> is a stable sort; with \<^verbatim>\<open>reverse=True\<close> CPython reverses the list,
  sorts it stably in ascending key order and reverses the result.
\<close>

definition py_sort_reverse :: "('a \<Rightarrow> 'k::linorder) \<Rightarrow> 'a list \<Rightarrow> 'a list" where
  "py_sort_reverse f xs = rev (sort_key f (rev xs))"

definition select_features :: "rat list \<Rightarrow> string list \<Rightarrow> (string \<times> rat) list" where
  "select_features feature_importances X_columns =
     py_sort_reverse snd (zip X_columns feature_importances)"

section \<open>Trainer: the class-weight map\<close>

text \<open>
  \<^verbatim>\<open>
  class_counts = np.bincount(y_train)
  class_weight = {
      i: sum(class_counts) / class_counts[i] for i in range(len(class_counts))
  }
  \<close>
  Class codes are non-negative integers.  \<^verbatim>\<open>np.bincount\<close> returns one count for every
  code from 0 to the largest code of its argument, and the empty array for an empty
  argument.  The quotient of two numpy integers is a float: a positive number over
  zero is \<^verbatim>\<open>inf\<close> and zero over zero is \<^verbatim>\<open>nan\<close> (numpy warns and does not raise).
\<close>

datatype np_float = Finite rat | PosInf | NotANumber

definition np_true_divide :: "nat \<Rightarrow> nat \<Rightarrow> np_float" where
  "np_true_divide a b =
     (if b = 0 then (if a = 0 then NotANumber else PosInf)
      else Finite (of_nat a / of_nat b))"

fun finite_positive :: "np_float \<Rightarrow> bool" where
  "finite_positive (Finite q) = (0 < q)"
| "finite_positive PosInf = False"
| "finite_positive NotANumber = False"

definition bincount :: "nat list \<Rightarrow> nat list" where
  "bincount y = (if y = [] then [] else map (count_list y) [0..<Suc (fold max y 0)])"

definition class_weight :: "nat list \<Rightarrow> (nat \<times> np_float) list" where
  "class_weight y_train =
     (let class_counts = bincount y_train
      in map (\<lambda>i. (i, np_true_divide (sum_list class_counts) (class_counts ! i)))
             [0..<length class_counts])"

section \<open>Stratified Splitter: \<^verbatim>\<open>train_test_split_by_category\<close>\<close>

text \<open>
  The table is a list of rows; a row is the pair of its feature part (the row of
  \<^verbatim>\<open>X = df.drop(category, axis=1)\<close>) and its target value (\<^verbatim>\<open>y = df[category]\<close>).
  A missing target (NaN) is \<open>None\<close>.  The target is a column of the table, and the
  index of the table is the default one (the table comes from \<^verbatim>\<open>pd.read_csv\<close>), so
  the label of a row is its position.

  \<^verbatim>\<open>y.unique()\<close> lists the distinct values in order of first appearance (NaN once).
  \<^verbatim>\<open>y[y == label].index.tolist()\<close> lists the positions whose target equals the
  label; NaN is equal to nothing, itself included.
\<close>

definition unique :: "'a list \<Rightarrow> 'a list" where
  "unique xs = rev (remdups (rev xs))"

definition label_indices :: "'c option list \<Rightarrow> 'c option \<Rightarrow> nat list" where
  "label_indices y label =
     (if label = None then [] else filter (\<lambda>i. y ! i = label) [0..<length y])"

text \<open>
  \<^verbatim>\<open>train_test_split(label_indices, test_size=0.2, random_state=42)\<close> of scikit-learn:
  \<^verbatim>\<open>
  n_test = ceil(test_size * n_samples)
  n_train = n_samples - n_test
  if n_train == 0: raise ValueError("... the resulting train set will be empty ...")
  permutation = rng.permutation(n_samples)
  ind_test = permutation[:n_test]
  ind_train = permutation[n_test:(n_test + n_train)]
  \<close>
  The double nearest to 0.2 is \<open>0.2 * (1 + 2\<^sup>-\<^sup>5\<^sup>4)\<close>.  For a table of fewer than
  \<open>2\<^sup>5\<^sup>0\<close> rows the product \<^verbatim>\<open>0.2 * n_samples\<close>, rounded to a double, is the integer
  \<open>n / 5\<close> itself when 5 divides \<open>n\<close> (the excess is below half a unit in the last
  place) and lies strictly between the same two integers as \<open>n / 5\<close> otherwise: its
  ceiling is the ceiling of the exact fifth.
  Every call seeds a fresh generator with 42, so the permutation of the positions
  \<open>0, ..., n_samples - 1\<close> that is drawn depends on \<open>n_samples\<close> only; it is the
  parameter \<open>permutation\<close>.
\<close>

definition validate_shuffle_split :: "nat \<Rightarrow> py_error + (nat \<times> nat)" where
  "validate_shuffle_split n_samples =
     (let n_test = nat \<lceil>(1 / 5 :: rat) * of_nat n_samples\<rceil>;
          n_train = n_samples - n_test
      in if n_train = 0 then Inl ValueError else Inr (n_train, n_test))"

definition train_test_split ::
  "(nat \<Rightarrow> nat list) \<Rightarrow> 'a list \<Rightarrow> py_error + ('a list \<times> 'a list)" where
  "train_test_split permutation arr =
     (case validate_shuffle_split (length arr) of
        Inl e \<Rightarrow> Inl e
      | Inr (n_train, n_test) \<Rightarrow>
          let p = permutation (length arr);
              ind_test = take n_test p;
              ind_train = take n_train (drop n_test p)
          in Inr (map ((!) arr) ind_train, map ((!) arr) ind_test))"

text \<open>
  \<^verbatim>\<open>
  test_indices = []
  for label in y.unique():
      label_indices = y[y == label].index.tolist()
      label_test_indices = train_test_split(label_indices, ...)[1]
      test_indices.extend(label_test_indices)
  \<close>
\<close>

fun collect_test_indices ::
  "(nat \<Rightarrow> nat list) \<Rightarrow> 'c option list \<Rightarrow> 'c option list \<Rightarrow> nat list \<Rightarrow> py_error + nat list" where
  "collect_test_indices permutation y [] test_indices = Inr test_indices"
| "collect_test_indices permutation y (label # labels) test_indices =
     (case train_test_split permutation (label_indices y label) of
        Inl e \<Rightarrow> Inl e
      | Inr (label_train_indices, label_test_indices) \<Rightarrow>
          collect_test_indices permutation y labels (test_indices @ label_test_indices))"

text \<open>
  \<^verbatim>\<open>X.drop(test_indices)\<close> keeps, in table order, the rows whose label is not listed;
  \<^verbatim>\<open>X.loc[test_indices]\<close> takes the listed rows in the order of the list.  Both keep
  the index, so a selected row is paired with its label.  Both raise \<^verbatim>\<open>KeyError\<close> for
  a label that the table does not have.
\<close>

definition drop_rows :: "'a list \<Rightarrow> nat list \<Rightarrow> (nat \<times> 'a) list" where
  "drop_rows xs test_indices =
     map (\<lambda>i. (i, xs ! i)) (filter (\<lambda>i. i \<notin> set test_indices) [0..<length xs])"

definition loc_rows :: "'a list \<Rightarrow> nat list \<Rightarrow> (nat \<times> 'a) list" where
  "loc_rows xs test_indices = map (\<lambda>i. (i, xs ! i)) test_indices"

definition train_test_split_by_category ::
  "(nat \<Rightarrow> nat list) \<Rightarrow> ('x \<times> 'c option) list \<Rightarrow>
   py_error + (((nat \<times> 'x) list \<times> (nat \<times> 'c option) list) \<times>
               ((nat \<times> 'x) list \<times> (nat \<times> 'c option) list))" where
  "train_test_split_by_category permutation df =
     (let X = map fst df; y = map snd df
      in case collect_test_indices permutation y (unique y) [] of
           Inl e \<Rightarrow> Inl e
         | Inr test_indices \<Rightarrow>
             if list_all (\<lambda>i. i < length df) test_indices
             then Inr ((drop_rows X test_indices, drop_rows y test_indices),
                       (loc_rows X test_indices, loc_rows y test_indices))
             else Inl KeyError)"

text \<open>
  The test half of a split that succeeds, with the ceiling of the fifth written as an
  integer quotient (see \<open>train_test_split_test_part\<close> below).
\<close>

definition test_part :: "(nat \<Rightarrow> nat list) \<Rightarrow> 'a list \<Rightarrow> 'a list" where
  "test_part permutation arr =
     map ((!) arr) (take ((length arr + 4) div 5) (permutation (length arr)))"

section \<open>Preprocessor: \<^verbatim>\<open>format_df\<close> and \<^verbatim>\<open>fill_age_height_weight\<close>\<close>

text \<open>
  A row of the raw table carries the three numeric fields that the imputation reads
  (a missing value, NaN, is \<open>None\<close>) and the remaining fields.  The table records
  which column names it has; a column that is absent is never read, because the
  check of the required columns raises first.  Floats are modelled by rationals.
\<close>

record 'a patient =
  age :: "rat option"
  height :: "rat option"
  weight :: "rat option"
  other :: 'a

record 'a dataframe =
  columns :: "string list"
  rows :: "'a patient list"

definition DROP_COLUMNS :: "string list" where
  "DROP_COLUMNS =
     [''ritmi'', ''ecg_id'', ''patient_id'', ''nurse'', ''site'', ''device'',
      ''recording_date'', ''report'', ''scp_codes'', ''infarction_stadium1'',
      ''infarction_stadium2'', ''initial_autogenerated_report'', ''baseline_drift'',
      ''static_noise'', ''burst_noise'', ''electrodes_problems'', ''extra_beats'',
      ''filename_lr'', ''filename_hr'', ''validated_by'', ''second_opinion'',
      ''validated_by_human'', ''strat_fold'']"

text \<open>
  \<^verbatim>\<open>df.drop(columns=DROP_COLUMNS)\<close> returns a new table without the listed columns and
  raises \<^verbatim>\<open>KeyError\<close> when one of them is not a column of the table.
\<close>

definition drop_columns :: "string list \<Rightarrow> 'a dataframe \<Rightarrow> py_error + 'a dataframe" where
  "drop_columns cs df =
     (if set cs \<subseteq> set (columns df)
      then Inr (df\<lparr>columns := filter (\<lambda>c. c \<notin> set cs) (columns df)\<rparr>)
      else Inl KeyError)"

text \<open>
  Comparisons with NaN are false; arithmetic on NaN is NaN.  \<^verbatim>\<open>int\<close> truncates
  towards zero and raises \<^verbatim>\<open>ValueError\<close> on NaN.  \<^verbatim>\<open>Series.median\<close> and
  \<^verbatim>\<open>Series.mean\<close> skip NaN and are NaN when nothing is left.
\<close>

fun ge_nan :: "rat option \<Rightarrow> rat option \<Rightarrow> bool" where
  "ge_nan (Some a) (Some b) = (b \<le> a)"
| "ge_nan _ _ = False"

fun le_nan :: "rat option \<Rightarrow> rat option \<Rightarrow> bool" where
  "le_nan (Some a) (Some b) = (a \<le> b)"
| "le_nan _ _ = False"

definition add_nan :: "rat option \<Rightarrow> rat \<Rightarrow> rat option" where
  "add_nan x d = map_option (\<lambda>a. a + d) x"

definition py_int :: "rat \<Rightarrow> int" where
  "py_int q = (if 0 \<le> q then \<lfloor>q\<rfloor> else \<lceil>q\<rceil>)"

definition dropna :: "rat option list \<Rightarrow> rat list" where
  "dropna col = map the (filter (\<lambda>a. a \<noteq> None) col)"

definition median :: "rat list \<Rightarrow> rat" where
  "median xs =
     (let s = sort xs; n = length s
      in if odd n then s ! (n div 2) else (s ! (n div 2 - 1) + s ! (n div 2)) / 2)"

definition mean :: "rat option list \<Rightarrow> rat option" where
  "mean col =
     (let known = dropna col
      in if known = [] then None else Some (sum_list known / of_nat (length known)))"

text \<open>
  \<^verbatim>\<open>
  def fill_age(row):
      if np.isnan(row["age"]):
          age_subset = df[
              (df["height"] >= row["height"] - 2.5)
              & (df["height"] <= row["height"] + 2.5)
              & (df["weight"] >= row["weight"] - 2)
              & (df["weight"] <= row["weight"] + 2)
              & (~np.isnan(df["age"]))
          ]["age"]
          if len(age_subset) > 0:
              row["age"] = int(age_subset.median() + 0.5)
          else:
              row["age"] = int(df["age"].mean() + 0.5)
      return row
  \<close>
  \<open>df\<close> is the table that \<^verbatim>\<open>fill_age_height_weight\<close> received: the name is rebound
  only after \<^verbatim>\<open>df.apply(fill_age, axis=1)\<close> has returned, and the rows handed to
  \<^verbatim>\<open>fill_age\<close> are copies.
\<close>

definition fill_age :: "'a patient list \<Rightarrow> 'a patient \<Rightarrow> py_error + 'a patient" where
  "fill_age df row =
     (if age row = None then
        let age_subset = dropna (map age (filter (\<lambda>r.
              ge_nan (height r) (add_nan (height row) (- (5 / 2)))
              \<and> le_nan (height r) (add_nan (height row) (5 / 2))
              \<and> ge_nan (weight r) (add_nan (weight row) (- 2))
              \<and> le_nan (weight r) (add_nan (weight row) 2)
              \<and> age r \<noteq> None) df))
        in if 0 < length age_subset
           then Inr (row\<lparr>age := Some (of_int (py_int (median age_subset + 1 / 2)))\<rparr>)
           else (case mean (map age df) of
                   None \<Rightarrow> Inl ValueError
                 | Some m \<Rightarrow> Inr (row\<lparr>age := Some (of_int (py_int (m + 1 / 2)))\<rparr>))
      else Inr row)"

text \<open>\<^verbatim>\<open>df.apply(f, axis=1)\<close>: the rows in order; the first exception ends the call.\<close>

fun apply_rows :: "('r \<Rightarrow> py_error + 's) \<Rightarrow> 'r list \<Rightarrow> py_error + 's list" where
  "apply_rows f [] = Inr []"
| "apply_rows f (r # rs) =
     (case f r of
        Inl e \<Rightarrow> Inl e
      | Inr r' \<Rightarrow> (case apply_rows f rs of Inl e \<Rightarrow> Inl e | Inr rs' \<Rightarrow> Inr (r' # rs')))"

text \<open>
  \<^verbatim>\<open>fill_age_height_weight\<close> checks the required columns, fills the ages and then
  fills height and weight by the mean of the (age range, sex) group (lines 166 to
  190).  \<^verbatim>\<open>format_df\<close> drops the columns of \<^verbatim>\<open>DROP_COLUMNS\<close>, calls
  \<^verbatim>\<open>fill_age_height_weight\<close> and then encodes heart axis, pacemaker and diagnosis
  (lines 94 to 113); its parameter \<^verbatim>\<open>drop_columns\<close> is never read.  The group
  imputation and the encoding run on the table that the earlier steps return; they
  are the parameters \<open>fill_height_weight\<close> and \<open>encode\<close>, so that what is proved
  holds whatever they compute.
\<close>

definition fill_age_height_weight ::
  "('a dataframe \<Rightarrow> py_error + 'a dataframe) \<Rightarrow> 'a dataframe \<Rightarrow> py_error + 'a dataframe" where
  "fill_age_height_weight fill_height_weight df =
     (let required_columns = [''age'', ''height'', ''weight''];
          missing_columns = set required_columns - set (columns df)
      in if missing_columns = {}
         then (case apply_rows (fill_age (rows df)) (rows df) of
                 Inl e \<Rightarrow> Inl e
               | Inr filled \<Rightarrow> fill_height_weight (df\<lparr>rows := filled\<rparr>))
         else Inl ValueError)"

definition format_df ::
  "('a dataframe \<Rightarrow> py_error + 'a dataframe) \<Rightarrow> ('a dataframe \<Rightarrow> py_error + 'a dataframe) \<Rightarrow>
   'a dataframe \<Rightarrow> py_error + 'a dataframe" where
  "format_df fill_height_weight encode df =
     (case drop_columns DROP_COLUMNS df of
        Inl e \<Rightarrow> Inl e
      | Inr dropped \<Rightarrow>
          (case fill_age_height_weight fill_height_weight dropped of
             Inl e \<Rightarrow> Inl e
           | Inr filled \<Rightarrow> encode filled))"

text \<open>
  The donors of a record in the words of the specification: the records with a known
  age, a height within 2.5 units and a weight within 2 units of the record's.
\<close>

definition is_donor :: "'a patient \<Rightarrow> 'a patient \<Rightarrow> bool" where
  "is_donor row r =
     (case (age r, height r, weight r, height row, weight row) of
        (Some a, Some h, Some w, Some h0, Some w0) \<Rightarrow> \<bar>h - h0\<bar> \<le> 5 / 2 \<and> \<bar>w - w0\<bar> \<le> 2
      | _ \<Rightarrow> False)"

definition donor_ages :: "'a patient list \<Rightarrow> 'a patient \<Rightarrow> rat list" where
  "donor_ages df row = map (the \<circ> age) (filter (is_donor row) df)"

definition round_half_up :: "rat \<Rightarrow> rat" where
  "round_half_up q = of_int (py_int (q + 1 / 2))"

definition global_mean_age :: "'a patient list \<Rightarrow> rat" where
  "global_mean_age df =
     sum_list (dropna (map age df)) / of_nat (length (dropna (map age df)))"

definition imputed_age :: "'a patient list \<Rightarrow> 'a patient \<Rightarrow> rat" where
  "imputed_age df row =
     round_half_up (if donor_ages df row = [] then global_mean_age df
                    else median (donor_ages df row))"

section \<open>Trainer: \<^verbatim>\<open>train\<close>\<close>

text \<open>
  A search grid is a dictionary from hyperparameter names to lists of candidate
  values; the keyword arguments of the classifier are a dictionary from names to
  values.  Dictionaries keep insertion order and are association lists.
\<close>

datatype param_value =
  PInt int | PNone | PStr string | PClassWeight "(nat \<times> np_float) list"

type_synonym param_grid = "(string \<times> param_value list) list"
type_synonym rf_params = "(string \<times> param_value) list"

text \<open>
  \<^verbatim>\<open>
  if param_grid is not None:
      if param_grid.get("class_weight"):
          param_grid["class_weight"].append(class_weight)
      rf = RandomForestClassifier()
      grid_search = GridSearchCV(estimator=rf, param_grid=param_grid, cv=5, scoring="accuracy")
      grid_search.fit(X_train, y_train)
      rf = RandomForestClassifier(**grid_search.best_params_, random_state=42)
      rf.fit(X_train, y_train)
  else:
      rf = RandomForestClassifier(n_estimators=100, random_state=42)
      rf.fit(X_train, y_train)
  return rf
  \<close>
  The classifier and the grid search belong to scikit-learn and are parameters:
  \<open>rf_fit params X y\<close> is \<^verbatim>\<open>RandomForestClassifier(**params).fit(X, y)\<close> and
  \<open>grid_search_fit grid X y\<close> is the \<^verbatim>\<open>best_params_\<close> of the fitted search; each
  returns its exception as a value.  \<^verbatim>\<open>append\<close> changes the list inside the caller's
  dictionary, so \<open>train\<close> returns the grid as the caller finds it afterwards (also
  when the call raises) together with the result.  A non-empty list is true, an
  empty list and a missing key (\<^verbatim>\<open>None\<close>) are false; \<open>inject_class_weight\<close> is the
  inner \<^verbatim>\<open>if\<close>.  A second \<^verbatim>\<open>random_state\<close> keyword is a \<^verbatim>\<open>TypeError\<close>.
\<close>

definition inject_class_weight :: "param_grid \<Rightarrow> (nat \<times> np_float) list \<Rightarrow> param_grid" where
  "inject_class_weight grid weights =
     (case map_of grid ''class_weight'' of
        None \<Rightarrow> grid
      | Some [] \<Rightarrow> grid
      | Some (c # cs) \<Rightarrow> AList.update ''class_weight'' ((c # cs) @ [PClassWeight weights]) grid)"

definition train ::
  "(rf_params \<Rightarrow> 'x \<Rightarrow> nat list \<Rightarrow> py_error + 'm) \<Rightarrow>
   (param_grid \<Rightarrow> 'x \<Rightarrow> nat list \<Rightarrow> py_error + rf_params) \<Rightarrow>
   'x \<Rightarrow> nat list \<Rightarrow> param_grid option \<Rightarrow> param_grid option \<times> (py_error + 'm)" where
  "train rf_fit grid_search_fit X_train y_train param_grid =
     (let weights = class_weight y_train
      in case param_grid of
           None \<Rightarrow>
             (None, rf_fit [(''n_estimators'', PInt 100), (''random_state'', PInt 42)]
                      X_train y_train)
         | Some grid \<Rightarrow>
             let grid' = inject_class_weight grid weights
             in (Some grid',
                 case grid_search_fit grid' X_train y_train of
                   Inl e \<Rightarrow> Inl e
                 | Inr best_params \<Rightarrow>
                     if ''random_state'' \<in> fst ` set best_params then Inl TypeError
                     else rf_fit (best_params @ [(''random_state'', PInt 42)]) X_train y_train))"

text \<open>
  What the fit of scikit-learn's forest checks about its training set: one label per
  row and at least one row.  Any number of classes is accepted, a single one too.
  The fitted model keeps its parameters and the sorted classes it has seen.
\<close>

record forest =
  params :: rf_params
  classes :: "nat list"

definition forest_fit :: "rf_params \<Rightarrow> 'x list \<Rightarrow> nat list \<Rightarrow> py_error + forest" where
  "forest_fit ps X y =
     (if length X = length y
      then (if X = [] then Inl ValueError else Inr \<lparr>params = ps, classes = sort (remdups y)\<rparr>)
      else Inl ValueError)"

section \<open>Evaluator: \<^verbatim>\<open>create_reports\<close>, \<^verbatim>\<open>create_report_table\<close>, \<^verbatim>\<open>create_confusion_matrix\<close>\<close>

definition DIAGNOSI_MAP :: "(string \<times> nat) list" where
  "DIAGNOSI_MAP =
     [(''SR'', 0), (''AFIB'', 1), (''STACH'', 0), (''SARRH'', 2), (''SBRAD'', 0),
      (''PACE'', 3), (''SVARR'', 4), (''BIGU'', 5), (''AFLT'', 6), (''SVTAC'', 7),
      (''PSVT'', 8), (''TRIGU'', 9)]"

definition LABELS :: "(string \<times> string) list" where
  "LABELS =
     [(''0'', ''Sinus Rhythm''),
      (''1'', ''Atrial Fibrillation''),
      (''2'', ''Sinus Arrhythmia''),
      (''3'', ''Normal Functioning Artificial Pacemaker''),
      (''4'', ''Supraventricular Arrhythmia''),
      (''5'', ''Bigeminal Pattern (Unknown Origin, SV or Ventricular)''),
      (''6'', ''Atrial Flutter''),
      (''7'', ''Supraventricular Tachycardia''),
      (''8'', ''Paroxysmal Supraventricular Tachycardia''),
      (''9'', ''Trigeminal Pattern (Unknown Origin, SV or Ventricular)'')]"

text \<open>
  \<^verbatim>\<open>
  CM_LABELS = [""] * (max(list(DIAGNOSI_MAP.values())) + 1)
  for k, i in DIAGNOSI_MAP.items():
      CM_LABELS[i] = k
  CM_LABELS[0] = "NSR"
  \<close>
  Every index written is within the list, by the choice of its length.
\<close>

definition CM_LABELS :: "string list" where
  "CM_LABELS =
     (fold (\<lambda>(k, i) labels. labels[i := k]) DIAGNOSI_MAP
        (replicate (fold max (map snd DIAGNOSI_MAP) 0 + 1) []))[0 := ''NSR'']"

text \<open>
  \<^verbatim>\<open>confusion_matrix(y, y_pred)\<close> of scikit-learn, called without \<^verbatim>\<open>labels\<close>: the
  labels are the sorted distinct values that occur in \<^verbatim>\<open>y\<close> or \<^verbatim>\<open>y_pred\<close>; entry
  \<open>(i, j)\<close> counts the samples with true label \<open>i\<close> and predicted label \<open>j\<close> of that
  list.  Sequences of different lengths are a \<^verbatim>\<open>ValueError\<close>.
\<close>

definition unique_labels :: "nat list \<Rightarrow> nat list \<Rightarrow> nat list" where
  "unique_labels y_true y_pred = sort (remdups (y_true @ y_pred))"

definition confusion_matrix :: "nat list \<Rightarrow> nat list \<Rightarrow> py_error + nat list list" where
  "confusion_matrix y_true y_pred =
     (if length y_true = length y_pred
      then (let labels = unique_labels y_true y_pred
            in Inr (map (\<lambda>t. map (\<lambda>p. count_list (zip y_true y_pred) (t, p)) labels) labels))
      else Inl ValueError)"

text \<open>
  A classification report is a dictionary: a class key, \<^verbatim>\<open>"macro avg"\<close> and
  \<^verbatim>\<open>"weighted avg"\<close> each map to the dictionary of precision, recall, f1-score and
  support (in this order), and \<^verbatim>\<open>"accuracy"\<close> maps to a float.
\<close>

record metrics =
  precision :: rat
  recall :: rat
  f1_score :: rat
  support :: rat

datatype report_value = Metrics metrics | Accuracy rat

type_synonym report = "(string \<times> report_value) list"

text \<open>
  \<^verbatim>\<open>
  report = classification_report(y, y_pred, output_dict=True)
  for k in list(report.keys()):
      if k in LABELS:
          report[LABELS[k]] = report.pop(k)
  cm = confusion_matrix(y, y_pred)
  return report, cm
  \<close>
  \<^verbatim>\<open>classification_report\<close> belongs to scikit-learn and is a parameter.  The keys
  come from the dictionary itself, so \<^verbatim>\<open>pop\<close> finds each of them.
\<close>

fun relabel :: "string list \<Rightarrow> report \<Rightarrow> report" where
  "relabel [] report = report"
| "relabel (k # ks) report =
     (case (map_of LABELS k, map_of report k) of
        (Some name, Some v) \<Rightarrow> relabel ks (AList.update name v (AList.delete k report))
      | _ \<Rightarrow> relabel ks report)"

definition create_reports ::
  "(nat list \<Rightarrow> nat list \<Rightarrow> py_error + report) \<Rightarrow> nat list \<Rightarrow> nat list \<Rightarrow>
   py_error + (report \<times> nat list list)" where
  "create_reports classification_report y y_pred =
     (case classification_report y y_pred of
        Inl e \<Rightarrow> Inl e
      | Inr report \<Rightarrow>
          (case confusion_matrix y y_pred of
             Inl e \<Rightarrow> Inl e
           | Inr cm \<Rightarrow> Inr (relabel (map fst report) report, cm)))"

text \<open>
  \<^verbatim>\<open>
  cm_labels_reversed = CM_LABELS[::-1]
  cm_reversed = cm[::-1]
  trace = go.Heatmap(z=cm_reversed, x=CM_LABELS, y=cm_labels_reversed, colorscale="Blues")
  \<close>
\<close>

record heatmap =
  heat_z :: "nat list list"
  heat_x :: "string list"
  heat_y :: "string list"

definition create_confusion_matrix :: "nat list list \<Rightarrow> heatmap" where
  "create_confusion_matrix cm = \<lparr>heat_z = rev cm, heat_x = CM_LABELS, heat_y = rev CM_LABELS\<rparr>"

text \<open>
  \<^verbatim>\<open>round(v, 2)\<close> rounds to the nearest multiple of a hundredth, a tie to the even
  one.
\<close>

definition round_half_even :: "rat \<Rightarrow> int" where
  "round_half_even q =
     (let f = \<lfloor>q\<rfloor>; r = q - of_int f
      in if r < 1 / 2 then f else if 1 / 2 < r then f + 1 else if even f then f else f + 1)"

definition py_round2 :: "rat \<Rightarrow> rat" where
  "py_round2 q = of_int (round_half_even (q * 100)) / 100"

text \<open>
  \<^verbatim>\<open>
  accuracy = report.pop("accuracy")
  macro_avg = report.pop("macro avg")
  weighted_avg = report.pop("weighted avg")
  columns = ["", "precision (%)", "recall (%)", "f1-score (%)", "support"]
  rows = []
  for k, v in report.items():
      row = [k] + [vv if vv > 1 else round(vv * 100, 2) for vv in v.values()]
      rows.append(row)
  rows.append(["macro avg"] + [v if v > 1 else round(v * 100, 2) for v in macro_avg.values()])
  rows.append(["weighted avg"] + [v if v > 1 else round(v * 100, 2) for v in weighted_avg.values()])
  rows.append(["", "", "", "accuracy", f"{round(accuracy * 100, 2)}%"])
  table = go.Figure(data=[go.Table(header=dict(values=columns),
                                   cells=dict(values=list(zip(*rows))))])
  \<close>
  \<^verbatim>\<open>pop\<close> removes the key from the caller's dictionary and raises \<^verbatim>\<open>KeyError\<close> when
  it is missing, so the function returns the dictionary as the caller finds it
  afterwards together with the result.  A float has no \<^verbatim>\<open>values\<close>
  (\<^verbatim>\<open>AttributeError\<close>) and a dictionary has no product with 100 (\<^verbatim>\<open>TypeError\<close>).
  All rows have five cells, so \<^verbatim>\<open>zip(*rows)\<close> is the transposed table.
\<close>

datatype table_cell = Text string | Number rat | Percent rat

record table_figure =
  header_values :: "string list"
  cells_values :: "table_cell list list"

definition pop :: "string \<Rightarrow> report \<Rightarrow> py_error + (report_value \<times> report)" where
  "pop k report =
     (case map_of report k of
        None \<Rightarrow> Inl KeyError
      | Some v \<Rightarrow> Inr (v, AList.delete k report))"

definition scale_value :: "rat \<Rightarrow> rat" where
  "scale_value vv = (if 1 < vv then vv else py_round2 (vv * 100))"

fun scaled_row :: "string \<times> report_value \<Rightarrow> py_error + table_cell list" where
  "scaled_row (k, Metrics v) =
     Inr (Text k # map (\<lambda>vv. Number (scale_value vv))
                       [precision v, recall v, f1_score v, support v])"
| "scaled_row (k, Accuracy a) = Inl AttributeError"

fun accuracy_row :: "report_value \<Rightarrow> py_error + table_cell list" where
  "accuracy_row (Accuracy accuracy) =
     Inr [Text [], Text [], Text [], Text ''accuracy'', Percent (py_round2 (accuracy * 100))]"
| "accuracy_row (Metrics v) = Inl TypeError"

definition table_rows ::
  "report \<Rightarrow> report_value \<Rightarrow> report_value \<Rightarrow> report_value \<Rightarrow> py_error + table_cell list list" where
  "table_rows report accuracy macro_avg weighted_avg =
     (case apply_rows scaled_row report of
        Inl e \<Rightarrow> Inl e
      | Inr class_rows \<Rightarrow>
          (case scaled_row (''macro avg'', macro_avg) of
             Inl e \<Rightarrow> Inl e
           | Inr macro_row \<Rightarrow>
               (case scaled_row (''weighted avg'', weighted_avg) of
                  Inl e \<Rightarrow> Inl e
                | Inr weighted_row \<Rightarrow>
                    (case accuracy_row accuracy of
                       Inl e \<Rightarrow> Inl e
                     | Inr last_row \<Rightarrow>
                         Inr (class_rows @ [macro_row, weighted_row, last_row])))))"

definition create_report_table :: "report \<Rightarrow> report \<times> (py_error + table_figure)" where
  "create_report_table report =
     (case pop ''accuracy'' report of
        Inl e \<Rightarrow> (report, Inl e)
      | Inr (accuracy, report1) \<Rightarrow>
          (case pop ''macro avg'' report1 of
             Inl e \<Rightarrow> (report1, Inl e)
           | Inr (macro_avg, report2) \<Rightarrow>
               (case pop ''weighted avg'' report2 of
                  Inl e \<Rightarrow> (report2, Inl e)
                | Inr (weighted_avg, report3) \<Rightarrow>
                    (report3,
                     case table_rows report3 accuracy macro_avg weighted_avg of
                       Inl e \<Rightarrow> Inl e
                     | Inr table \<Rightarrow>
                         Inr \<lparr>header_values =
                                [[], ''precision (%)'', ''recall (%)'', ''f1-score (%)'',
                                 ''support''],
                              cells_values = transpose table\<rparr>))))"

section \<open>Properties of the Feature Ranker\<close>

lemma py_sort_reverse_mset: "mset (py_sort_reverse f xs) = mset xs"
  by (simp add: py_sort_reverse_def)

lemma py_sort_reverse_sorted: "sorted (rev (map f (py_sort_reverse f xs)))"
  by (simp add: py_sort_reverse_def rev_map)

lemma py_sort_reverse_stable:
  "filter (\<lambda>p. f p = k) (py_sort_reverse f xs) = filter (\<lambda>p. f p = k) xs"
  by (simp add: py_sort_reverse_def sort_key_stable flip: rev_filter)

text \<open>\<^verbatim>\<open>zip\<close> stops at the shorter of the columns and the importances.\<close>

lemma length_select_features:
  "length (select_features feature_importances X_columns) =
     min (length X_columns) (length feature_importances)"
  by (simp add: select_features_def py_sort_reverse_def)

text \<open>
  Claim C8.  For a model with one importance per column of the table,
  \<open>select_features\<close> returns one (name, importance) pair per column (the names of the
  result are the columns, the pairs are those of the columns with their
  importances), sorted by importance in non-increasing order, and the pairs of equal
  importance keep the order of the columns.
\<close>

theorem select_features_ranked:
  assumes "length feature_importances = length X_columns"
  shows "mset (map fst (select_features feature_importances X_columns)) = mset X_columns \<and>
         mset (select_features feature_importances X_columns) =
           mset (zip X_columns feature_importances) \<and>
         sorted_wrt (\<lambda>a b. snd b \<le> snd a) (select_features feature_importances X_columns) \<and>
         (\<forall>v. filter (\<lambda>p. snd p = v) (select_features feature_importances X_columns) =
              filter (\<lambda>p. snd p = v) (zip X_columns feature_importances))"
proof -
  let ?r = "select_features feature_importances X_columns"
  have m: "mset ?r = mset (zip X_columns feature_importances)"
    by (simp add: select_features_def py_sort_reverse_mset)
  have "mset (map fst ?r) = mset (map fst (zip X_columns feature_importances))"
    using m by (metis mset_map)
  then have p: "mset (map fst ?r) = mset X_columns" using assms by simp
  have "sorted (rev (map snd ?r))"
    unfolding select_features_def by (rule py_sort_reverse_sorted)
  then have "sorted_wrt (\<lambda>a b. b \<le> a) (map snd ?r)"
    by (simp add: sorted_wrt_rev flip: rev_map)
  then have s: "sorted_wrt (\<lambda>a b. snd b \<le> snd a) ?r"
    by (simp add: sorted_wrt_map)
  show ?thesis using m p s
    by (simp add: select_features_def py_sort_reverse_stable)
qed

theorem select_features_ranked_witness:
  "select_features [1 / 4, 1 / 2, 1 / 8, 1 / 2] [''age'', ''sex'', ''height'', ''weight''] =
     [(''sex'', 1 / 2), (''weight'', 1 / 2), (''age'', 1 / 4), (''height'', 1 / 8)]"
proof -
  have "length [1 / 4, 1 / 2, 1 / 8, 1 / 2 :: rat] = length [''age'', ''sex'', ''height'', ''weight'']"
    by simp
  from select_features_ranked [OF this] show ?thesis
    by (simp add: select_features_def py_sort_reverse_def)
qed

section \<open>Properties of the class-weight map\<close>

lemma fold_max_Max: "fold max (ys :: nat list) 0 = Max (insert 0 (set ys))"
  using Max.set_eq_fold [of 0 ys] by simp

lemma le_fold_max: "c \<in> set (ys :: nat list) \<Longrightarrow> c \<le> fold max ys 0"
  by (simp add: fold_max_Max)

lemma length_bincount: "length (bincount ys) = (if ys = [] then 0 else Suc (fold max ys 0))"
  by (simp add: bincount_def)

lemma bincount_nth: "c < length (bincount ys) \<Longrightarrow> bincount ys ! c = count_list ys c"
  by (auto simp: bincount_def split: if_splits simp del: upt_Suc)

lemma mem_lt_length_bincount: "c \<in> set ys \<Longrightarrow> c < length (bincount ys)"
  using le_fold_max [of c ys] by (auto simp: length_bincount)

text \<open>The counts add up to the number of samples: \<^verbatim>\<open>sum(class_counts)\<close> is the total.\<close>

lemma sum_list_bincount: "sum_list (bincount ys) = length ys"
proof (cases "ys = []")
  case True
  then show ?thesis by (simp add: bincount_def)
next
  case False
  have sub: "set ys \<subseteq> {0..<Suc (fold max ys 0)}"
    using le_fold_max by (auto simp: less_Suc_eq_le)
  have "sum_list (bincount ys) = sum (count_list ys) {0..<Suc (fold max ys 0)}"
    using False by (simp add: bincount_def interv_sum_list_conv_sum_set_nat del: upt_Suc)
  also have "\<dots> = length ys"
    using sub by (rule sum_count_set) simp
  finally show ?thesis .
qed

lemma map_of_class_weight:
  "map_of (class_weight ys) c =
     (if c < length (bincount ys)
      then Some (np_true_divide (length ys) (count_list ys c)) else None)"
proof -
  have "map_of (map (\<lambda>i. (i, f i)) [0..<n]) c = (if c < n then Some (f c) else None)"
    for f :: "nat \<Rightarrow> np_float" and n
    by (simp add: map_of_map_restrict restrict_map_def)
  then show ?thesis
    by (simp add: class_weight_def Let_def sum_list_bincount bincount_nth)
qed

lemma keys_class_weight: "fst ` set (class_weight ys) = {0..<length (bincount ys)}"
  by (force simp: class_weight_def Let_def)

text \<open>
  Claim C3.  The classes of the map are the codes from 0 to the largest label, and
  they include every label of \<open>y_train\<close>.  When each of them has at least one sample,
  the map assigns to each class the total number of samples divided by the number of
  samples of the class, and every weight of the map is finite and strictly positive.
\<close>

theorem class_weight_inverse_frequency:
  assumes "\<forall>c \<in> fst ` set (class_weight y_train). 1 \<le> count_list y_train c"
  shows "set y_train \<subseteq> fst ` set (class_weight y_train) \<and>
         (\<forall>c \<in> fst ` set (class_weight y_train).
            map_of (class_weight y_train) c =
              Some (Finite (of_nat (length y_train) / of_nat (count_list y_train c)))) \<and>
         list_all (\<lambda>(c, w). finite_positive w) (class_weight y_train)"
proof (intro conjI ballI)
  show "set y_train \<subseteq> fst ` set (class_weight y_train)"
    using mem_lt_length_bincount by (auto simp: keys_class_weight)
next
  fix c assume c: "c \<in> fst ` set (class_weight y_train)"
  then have "1 \<le> count_list y_train c" using assms by blast
  moreover have "c < length (bincount y_train)" using c by (simp add: keys_class_weight)
  ultimately show "map_of (class_weight y_train) c =
      Some (Finite (of_nat (length y_train) / of_nat (count_list y_train c)))"
    by (simp add: map_of_class_weight np_true_divide_def)
next
  have "finite_positive w" if "(c, w) \<in> set (class_weight y_train)" for c w
  proof -
    have key: "c \<in> fst ` set (class_weight y_train)" using that by force
    then have pos: "1 \<le> count_list y_train c" using assms by blast
    then have "c \<in> set y_train" by (metis count_list_0_iff not_one_le_zero)
    then have "0 < length y_train" by (cases y_train) auto
    moreover have "c < length (bincount y_train)" using key by (simp add: keys_class_weight)
    moreover have "w = np_true_divide (sum_list (bincount y_train)) (bincount y_train ! c)"
      using that by (auto simp: class_weight_def Let_def)
    ultimately show ?thesis using pos
      by (simp add: sum_list_bincount bincount_nth np_true_divide_def)
  qed
  then show "list_all (\<lambda>(c, w). finite_positive w) (class_weight y_train)"
    by (auto simp: list_all_iff)
qed

theorem class_weight_inverse_frequency_witness:
  "map_of (class_weight [0, 1, 1, 2]) 1 = Some (Finite 2) \<and>
   list_all (\<lambda>(c, w). finite_positive w) (class_weight [0, 1, 1, 2])"
proof -
  have cw: "class_weight [0, 1, 1, 2] = [(0, Finite 4), (1, Finite 2), (2, Finite 4)]"
    by (simp add: class_weight_def bincount_def np_true_divide_def upt_rec)
  have "\<forall>c \<in> fst ` set (class_weight [0, 1, 1, 2]). 1 \<le> count_list [0, 1, 1, 2] c"
    unfolding cw by simp
  from class_weight_inverse_frequency [OF this] show ?thesis
    unfolding cw by simp
qed

text \<open>
  Claim C10.  The map has an entry for every code from 0 to the largest label.  For
  a code \<open>c\<close> below some label of \<open>y_train\<close> that is not itself a label, the count that
  divides the total is zero and the weight of \<open>c\<close> is infinite, so the weights of the
  map are not all finite and positive, although every label that occurs does so at
  least once.
\<close>

theorem class_weight_gap_not_finite:
  assumes "c \<notin> set y_train" and "c < d" and "d \<in> set y_train"
  shows "c < length (bincount y_train) \<and> bincount y_train ! c = 0 \<and>
         map_of (class_weight y_train) c = Some PosInf \<and>
         \<not> list_all (\<lambda>(c, w). finite_positive w) (class_weight y_train)"
proof -
  have lt: "c < length (bincount y_train)"
    using mem_lt_length_bincount [OF assms(3)] assms(2) by simp
  have zero: "count_list y_train c = 0" using assms(1) by (simp add: count_list_0_iff)
  have ne: "0 < length y_train" using assms(3) by (cases y_train) auto
  have w: "map_of (class_weight y_train) c = Some PosInf"
    using lt zero ne by (simp add: map_of_class_weight np_true_divide_def)
  then have "(c, PosInf) \<in> set (class_weight y_train)" by (rule map_of_SomeD)
  then have "\<not> list_all (\<lambda>(c, w). finite_positive w) (class_weight y_train)"
    by (force simp: list_all_iff)
  with lt zero w show ?thesis by (simp add: bincount_nth)
qed

theorem class_weight_gap_not_finite_witness:
  "1 \<notin> set [0, 2 :: nat] \<and> (1 :: nat) < 2 \<and> 2 \<in> set [0, 2 :: nat] \<and>
   bincount [0, 2] ! 1 = 0 \<and> map_of (class_weight [0, 2]) 1 = Some PosInf \<and>
   \<not> list_all (\<lambda>(c, w). finite_positive w) (class_weight [0, 2])"
proof -
  have h: "1 \<notin> set [0, 2 :: nat]" "(1 :: nat) < 2" "2 \<in> set [0, 2 :: nat]" by simp_all
  from class_weight_gap_not_finite [OF h] h show ?thesis
    by fast
qed

section \<open>Properties of the Stratified Splitter\<close>

lemma ceiling_fifth: "nat \<lceil>(1 / 5 :: rat) * of_nat n\<rceil> = (n + 4) div 5"
proof -
  have "\<lceil>(of_int (int n) :: rat) / of_int 5\<rceil> = - (- int n div 5)"
    by (rule ceiling_divide_eq_div)
  then have "\<lceil>(1 / 5 :: rat) * of_nat n\<rceil> = - (- int n div 5)" by simp
  then show ?thesis by linarith
qed

lemma validate_shuffle_split_eq:
  "validate_shuffle_split n =
     (if n < 2 then Inl ValueError else Inr (n - (n + 4) div 5, (n + 4) div 5))"
proof -
  have "n - (n + 4) div 5 = 0 \<longleftrightarrow> n < 2" by linarith
  then show ?thesis
    unfolding validate_shuffle_split_def ceiling_fifth Let_def by simp
qed

lemma train_test_split_small: "length arr < 2 \<Longrightarrow> train_test_split permutation arr = Inl ValueError"
  by (simp add: train_test_split_def validate_shuffle_split_eq)

lemma train_test_split_test_part:
  "2 \<le> length arr \<Longrightarrow> \<exists>tr. train_test_split permutation arr = Inr (tr, test_part permutation arr)"
  by (simp add: train_test_split_def validate_shuffle_split_eq test_part_def Let_def)

lemma collect_test_indices_eq:
  "\<forall>l \<in> set labels. 2 \<le> length (label_indices ys l) \<Longrightarrow>
   collect_test_indices permutation ys labels acc =
     Inr (acc @ concat (map (\<lambda>l. test_part permutation (label_indices ys l)) labels))"
proof (induction labels arbitrary: acc)
  case Nil
  then show ?case by simp
next
  case (Cons l labels)
  then obtain tr where "train_test_split permutation (label_indices ys l) =
      Inr (tr, test_part permutation (label_indices ys l))"
    using train_test_split_test_part [of "label_indices ys l" permutation] by auto
  then show ?case using Cons by simp
qed

lemma permutation_props:
  assumes "mset (permutation n) = mset [0..<n]"
  shows "set (permutation n) = {0..<n}" "distinct (permutation n)" "length (permutation n) = n"
proof -
  show "set (permutation n) = {0..<n}" using mset_eq_setD [OF assms] by simp
  show "distinct (permutation n)" using mset_eq_imp_distinct_iff [OF assms] by simp
  show "length (permutation n) = n" using mset_eq_length [OF assms] by simp
qed

lemma length_test_part:
  assumes "mset (permutation (length arr)) = mset [0..<length arr]"
  shows "length (test_part permutation arr) = (length arr + 4) div 5"
proof -
  have "(length arr + 4) div 5 \<le> length arr" by linarith
  then show ?thesis
    using permutation_props(3) [of permutation "length arr"] assms by (simp add: test_part_def)
qed

lemma set_test_part:
  assumes "mset (permutation (length arr)) = mset [0..<length arr]"
  shows "set (test_part permutation arr) \<subseteq> set arr"
proof -
  let ?t = "take ((length arr + 4) div 5) (permutation (length arr))"
  have "set ?t \<subseteq> {0..<length arr}"
    using permutation_props(1) [of permutation "length arr"] assms
      set_take_subset [of _ "permutation (length arr)"] by simp
  then have "arr ! i \<in> set arr" if "i \<in> set ?t" for i
    using that by (intro nth_mem) auto
  then show ?thesis unfolding test_part_def by auto
qed

lemma distinct_test_part:
  assumes "mset (permutation (length arr)) = mset [0..<length arr]" and "distinct arr"
  shows "distinct (test_part permutation arr)"
proof -
  let ?t = "take ((length arr + 4) div 5) (permutation (length arr))"
  have sub: "set ?t \<subseteq> {0..<length arr}"
    using permutation_props(1) [of permutation "length arr"] assms(1)
      set_take_subset [of _ "permutation (length arr)"] by simp
  have "distinct ?t"
    using permutation_props(2) [of permutation "length arr"] assms(1) by simp
  moreover have "inj_on ((!) arr) (set ?t)"
    using assms(2) sub by (intro inj_on_nth) auto
  ultimately show ?thesis by (simp add: test_part_def distinct_map)
qed

lemma label_indices_props:
  "distinct (label_indices ys l)"
  "set (label_indices ys l) \<subseteq> {i. i < length ys \<and> ys ! i = l}"
  by (auto simp: label_indices_def)

lemma length_label_indices:
  "l \<noteq> None \<Longrightarrow> length (label_indices ys l) = count_list ys l"
proof -
  assume "l \<noteq> None"
  then have "label_indices ys l = filter (\<lambda>i. ys ! i = l) [0..<length ys]"
    by (cases l) (simp_all add: label_indices_def)
  then have "length (label_indices ys l) = card ({i. ys ! i = l} \<inter> set [0..<length ys])"
    by (simp add: distinct_length_filter)
  also have "{i. ys ! i = l} \<inter> set [0..<length ys] = {i. i < length ys \<and> l = ys ! i}"
    by auto
  also have "card \<dots> = count_list ys l"
    by (simp add: count_list_eq_length_filter length_filter_conv_card)
  finally show ?thesis .
qed

text \<open>The concatenated test halves of distinct labels: the list of test indices.\<close>

lemma concat_parts:
  assumes "\<And>l. distinct (f l)" and "\<And>l. set (f l) \<subseteq> {i. i < length ys \<and> ys ! i = l}"
      and "distinct labels"
  shows "distinct (concat (map f labels))"
    and "set (concat (map f labels)) \<subseteq> {0..<length ys}"
    and "filter (\<lambda>i. ys ! i = c) (concat (map f labels)) = (if c \<in> set labels then f c else [])"
proof -
  show "set (concat (map f labels)) \<subseteq> {0..<length ys}"
    using assms(2) by fastforce
  show "distinct (concat (map f labels))"
    using assms(3)
  proof (induction labels)
    case Nil
    then show ?case by simp
  next
    case (Cons l labels)
    have "set (f l) \<inter> set (concat (map f labels)) = {}"
    proof (rule ccontr)
      assume "set (f l) \<inter> set (concat (map f labels)) \<noteq> {}"
      then obtain i l' where i: "i \<in> set (f l)" "l' \<in> set labels" "i \<in> set (f l')"
        by auto
      then have "ys ! i = l" "ys ! i = l'" using assms(2) by blast+
      then show False using i(2) Cons.prems by simp
    qed
    then show ?case using Cons assms(1) by simp
  qed
  have all: "filter (\<lambda>i. ys ! i = c) (f c) = f c"
    using assms(2) [of c] by (auto simp: filter_id_conv)
  have none: "filter (\<lambda>i. ys ! i = c) (f l) = []" if "l \<noteq> c" for l
    using assms(2) [of l] that by (auto simp: filter_empty_conv)
  show "filter (\<lambda>i. ys ! i = c) (concat (map f labels)) = (if c \<in> set labels then f c else [])"
    using assms(3)
  proof (induction labels)
    case Nil
    then show ?case by simp
  next
    case (Cons l labels)
    then show ?case using all none by (cases "l = c") auto
  qed
qed

lemma unique_props: "set (unique xs) = set xs" "distinct (unique xs)"
  by (simp_all add: unique_def)

lemma zip_upt_nth: "zip [0..<length xs] xs = map (\<lambda>i. (i, xs ! i)) [0..<length xs]"
  by (rule nth_equalityI) simp_all

lemma drop_loc_partition:
  assumes "distinct T" and "set T \<subseteq> {0..<length xs}"
  shows "mset (drop_rows xs T) + mset (loc_rows xs T) = mset (zip [0..<length xs] xs)"
proof -
  have "mset T = mset (filter (\<lambda>i. i \<in> set T) [0..<length xs])"
    using assms by (intro iffD1 [OF set_eq_iff_mset_eq_distinct]) auto
  moreover have "mset [0..<length xs] =
      filter_mset (\<lambda>i. i \<in> set T) (mset [0..<length xs])
      + filter_mset (\<lambda>i. \<not> i \<in> set T) (mset [0..<length xs])"
    by (rule multiset_partition)
  ultimately have "mset (filter (\<lambda>i. i \<notin> set T) [0..<length xs]) + mset T = mset [0..<length xs]"
    by (simp only: mset_filter union_commute)
  then have "mset (map (\<lambda>i. (i, xs ! i)) (filter (\<lambda>i. i \<notin> set T) [0..<length xs]))
      + mset (map (\<lambda>i. (i, xs ! i)) T) = mset (map (\<lambda>i. (i, xs ! i)) [0..<length xs])"
    by (metis image_mset_union mset_map)
  then show ?thesis by (simp add: drop_rows_def loc_rows_def zip_upt_nth)
qed


lemma count_list_map_filter: "count_list (map g T) c = length (filter (\<lambda>i. g i = c) T)"
  by (induction T) auto

lemma ceiling_round_near: "\<bar>\<lceil>q\<rceil> - round q\<bar> \<le> 1" for q :: rat
  unfolding round_def by linarith

lemma int_ceiling_fifth: "int ((n + 4) div 5) = \<lceil>(1 / 5 :: rat) * of_nat n\<rceil>"
proof -
  have "0 \<le> \<lceil>(1 / 5 :: rat) * of_nat n\<rceil>" by simp
  then show ?thesis using ceiling_fifth [of n] by linarith
qed

text \<open>
  When no target is missing and every class has at least two records, the split
  succeeds and partitions the table, with the ceiling of a fifth of each class in
  the test set.
\<close>

lemma split_succeeds:
  assumes perm: "\<forall>n. mset (permutation n) = mset [0..<n]"
      and cls: "\<forall>c \<in> set (map snd df). c \<noteq> None \<and> 2 \<le> count_list (map snd df) c"
  shows "\<exists>X_train y_train X_test y_test.
     train_test_split_by_category permutation df = Inr ((X_train, y_train), (X_test, y_test)) \<and>
     fst ` set X_train \<inter> fst ` set X_test = {} \<and>
     mset X_train + mset X_test = mset (zip [0..<length df] (map fst df)) \<and>
     mset y_train + mset y_test = mset (zip [0..<length df] (map snd df)) \<and>
     map fst X_train = map fst y_train \<and> map fst X_test = map fst y_test \<and>
     (\<forall>c \<in> set (map snd df).
        int (count_list (map snd y_test) c) = \<lceil>(1 / 5 :: rat) * of_nat (count_list (map snd df) c)\<rceil> \<and>
        \<bar>int (count_list (map snd y_test) c) - round ((1 / 5 :: rat) * of_nat (count_list (map snd df) c))\<bar> \<le> 1)"
proof -
  let ?X = "map fst df" and ?y = "map snd df"
  let ?f = "\<lambda>l. test_part permutation (label_indices ?y l)"
  let ?T = "concat (map ?f (unique ?y))"
  have p: "mset (permutation n) = mset [0..<n]" for n using perm by simp
  have "\<forall>l \<in> set (unique ?y). 2 \<le> length (label_indices ?y l)"
    using cls by (simp add: unique_props length_label_indices)
  then have collect: "collect_test_indices permutation ?y (unique ?y) [] = Inr ?T"
    using collect_test_indices_eq [of "unique ?y" ?y permutation "[]"] by simp
  have fd: "distinct (?f l)" for l
    using p label_indices_props(1) by (rule distinct_test_part)
  have fs: "set (?f l) \<subseteq> {i. i < length ?y \<and> ?y ! i = l}" for l
    using set_test_part [of permutation "label_indices ?y l", OF p] label_indices_props(2) [of ?y l]
    by (rule subset_trans)
  note parts = concat_parts [of ?f ?y "unique ?y", OF fd fs unique_props(2)]
  have dT: "distinct ?T" by (rule parts(1))
  have sT: "set ?T \<subseteq> {0..<length df}" using parts(2) by simp
  have "list_all (\<lambda>i. i < length df) ?T" using sT by (auto simp: list_all_iff)
  then have res: "train_test_split_by_category permutation df =
      Inr ((drop_rows ?X ?T, drop_rows ?y ?T), (loc_rows ?X ?T, loc_rows ?y ?T))"
    using collect by (simp add: train_test_split_by_category_def Let_def)
  have disj: "fst ` set (drop_rows ?X ?T) \<inter> fst ` set (loc_rows ?X ?T) = {}"
    by (auto simp: drop_rows_def loc_rows_def)
  have uX: "mset (drop_rows ?X ?T) + mset (loc_rows ?X ?T) = mset (zip [0..<length df] ?X)"
    using drop_loc_partition [of ?T ?X] dT sT by simp
  have uy: "mset (drop_rows ?y ?T) + mset (loc_rows ?y ?T) = mset (zip [0..<length df] ?y)"
    using drop_loc_partition [of ?T ?y] dT sT by simp
  have idx: "map fst (drop_rows ?X ?T) = map fst (drop_rows ?y ?T)"
      "map fst (loc_rows ?X ?T) = map fst (loc_rows ?y ?T)"
    by (simp_all add: drop_rows_def loc_rows_def comp_def)
  have cnt: "int (count_list (map snd (loc_rows ?y ?T)) c) = \<lceil>(1 / 5 :: rat) * of_nat (count_list ?y c)\<rceil>
      \<and> \<bar>int (count_list (map snd (loc_rows ?y ?T)) c) - round ((1 / 5 :: rat) * of_nat (count_list ?y c))\<bar> \<le> 1"
    if c: "c \<in> set ?y" for c
  proof -
    have "c \<noteq> None" using cls c by blast
    have "count_list (map snd (loc_rows ?y ?T)) c = length (filter (\<lambda>i. ?y ! i = c) ?T)"
      by (simp add: loc_rows_def comp_def count_list_map_filter)
    also have "\<dots> = length (?f c)"
      using parts(3) [of c] c by (simp add: unique_props)
    also have "\<dots> = (length (label_indices ?y c) + 4) div 5"
      using p by (rule length_test_part)
    also have "\<dots> = (count_list ?y c + 4) div 5"
      using \<open>c \<noteq> None\<close> by (simp add: length_label_indices)
    finally have "int (count_list (map snd (loc_rows ?y ?T)) c) =
        \<lceil>(1 / 5 :: rat) * of_nat (count_list ?y c)\<rceil>"
      by (simp only: int_ceiling_fifth)
    then show ?thesis using ceiling_round_near by simp
  qed
  show ?thesis
    using res disj uX uy idx cnt by blast
qed

text \<open>A missing target or a class of a single record makes the split raise.\<close>

lemma collect_test_indices_small:
  "\<exists>l \<in> set labels. length (label_indices ys l) < 2 \<Longrightarrow>
   collect_test_indices permutation ys labels acc = Inl ValueError"
proof (induction labels arbitrary: acc)
  case Nil
  then show ?case by simp
next
  case (Cons l labels)
  show ?case
  proof (cases "length (label_indices ys l) < 2")
    case True
    then show ?thesis by (simp add: train_test_split_small)
  next
    case False
    then obtain tr where "train_test_split permutation (label_indices ys l) =
        Inr (tr, test_part permutation (label_indices ys l))"
      using train_test_split_test_part [of "label_indices ys l" permutation] by auto
    moreover have "\<exists>l \<in> set labels. length (label_indices ys l) < 2"
      using Cons.prems False by auto
    ultimately show ?thesis using Cons.IH by simp
  qed
qed

lemma split_fails:
  assumes "c \<in> set (map snd df)" and "c = None \<or> count_list (map snd df) c < 2"
  shows "train_test_split_by_category permutation df = Inl ValueError"
proof -
  have "length (label_indices (map snd df) c) < 2"
  proof (cases "c = None")
    case True
    then show ?thesis by (simp add: label_indices_def)
  next
    case False
    then have "count_list (map snd df) c < 2" using assms(2) by blast
    then show ?thesis using False by (simp add: length_label_indices)
  qed
  moreover have "c \<in> set (unique (map snd df))" using assms(1) by (simp only: unique_props)
  ultimately have "collect_test_indices permutation (map snd df) (unique (map snd df)) [] = Inl ValueError"
    by (intro collect_test_indices_small) blast
  then show ?thesis by (simp add: train_test_split_by_category_def Let_def)
qed

text \<open>
  Claim C1, as amended.  Let the generator draw a permutation of the positions.
  When no target is missing and every class of the table has at least two records,
  the splitter returns a train and a test set; no index is in both, together they
  hold every indexed row of the table exactly once, and for every class the number
  of its records in the test set is the ceiling of a fifth of its count, which is
  within 1 of the rounded fifth.  Otherwise (a missing target, or a class of a
  single record) the splitter raises \<^verbatim>\<open>ValueError\<close>.
\<close>

theorem split_partition:
  assumes "\<forall>n. mset (permutation n) = mset [0..<n]"
  shows "if (\<forall>c \<in> set (map snd df). c \<noteq> None \<and> 2 \<le> count_list (map snd df) c)
    then (\<exists>X_train y_train X_test y_test.
     train_test_split_by_category permutation df = Inr ((X_train, y_train), (X_test, y_test)) \<and>
     fst ` set X_train \<inter> fst ` set X_test = {} \<and>
     mset X_train + mset X_test = mset (zip [0..<length df] (map fst df)) \<and>
     mset y_train + mset y_test = mset (zip [0..<length df] (map snd df)) \<and>
     map fst X_train = map fst y_train \<and> map fst X_test = map fst y_test \<and>
     (\<forall>c \<in> set (map snd df).
        int (count_list (map snd y_test) c) = \<lceil>(1 / 5 :: rat) * of_nat (count_list (map snd df) c)\<rceil> \<and>
        \<bar>int (count_list (map snd y_test) c) - round ((1 / 5 :: rat) * of_nat (count_list (map snd df) c))\<bar> \<le> 1))
    else train_test_split_by_category permutation df = Inl ValueError"
proof (cases "\<forall>c \<in> set (map snd df). c \<noteq> None \<and> 2 \<le> count_list (map snd df) c")
  case True
  then show ?thesis using split_succeeds [OF assms True] by simp
next
  case False
  then obtain c where "c \<in> set (map snd df)" "c = None \<or> count_list (map snd df) c < 2"
    by (auto simp: not_le)
  then have "train_test_split_by_category permutation df = Inl ValueError"
    by (rule split_fails)
  then show ?thesis using False by simp
qed

theorem split_partition_witness:
  "train_test_split_by_category (\<lambda>n. rev [0..<n])
     [(170 :: nat, Some (0 :: nat)), (171, Some 1), (172, Some 0), (173, Some 1), (174, Some 0)] =
   Inr (([(0, 170), (1, 171), (2, 172)], [(0, Some 0), (1, Some 1), (2, Some 0)]),
        ([(4, 174), (3, 173)], [(4, Some 0), (3, Some 1)]))"
proof -
  have h1: "\<forall>n. mset (rev [0..<n]) = mset [0..<n]" by simp
  have h2: "\<forall>c \<in> set (map snd [(170 :: nat, Some (0 :: nat)), (171, Some 1), (172, Some 0), (173, Some 1), (174, Some 0)]).
      c \<noteq> None \<and> 2 \<le> count_list (map snd [(170 :: nat, Some (0 :: nat)), (171, Some 1), (172, Some 0), (173, Some 1), (174, Some 0)]) c"
    by simp
  have ev: "train_test_split_by_category (\<lambda>n. rev [0..<n])
     [(170 :: nat, Some (0 :: nat)), (171, Some 1), (172, Some 0), (173, Some 1), (174, Some 0)] =
   Inr (([(0, 170), (1, 171), (2, 172)], [(0, Some 0), (1, Some 1), (2, Some 0)]),
        ([(4, 174), (3, 173)], [(4, Some 0), (3, Some 1)]))"
    by code_simp
  from split_partition [of "\<lambda>n. rev [0..<n]", OF h1] h2 ev show ?thesis
    by (simp only:)
qed

text \<open>
  Claim C1 as stated fails on a table with a class of one record: for that class
  \<^verbatim>\<open>n_test = 1\<close> and \<^verbatim>\<open>n_train = 0\<close>, and \<^verbatim>\<open>train_test_split\<close> raises.
\<close>

theorem split_singleton_class_counterexample:
  "train_test_split_by_category (\<lambda>n. [0..<n])
     [(170 :: nat, Some (0 :: nat)), (171, Some 0), (172, Some 1)] = Inl ValueError"
  by code_simp

section \<open>Properties of the age imputation\<close>

text \<open>The window of \<^verbatim>\<open>fill_age\<close> selects the donors of the specification.\<close>

lemma window_is_donor:
  "(ge_nan (height r) (add_nan (height row) (- (5 / 2)))
    \<and> le_nan (height r) (add_nan (height row) (5 / 2))
    \<and> ge_nan (weight r) (add_nan (weight row) (- 2))
    \<and> le_nan (weight r) (add_nan (weight row) 2)
    \<and> age r \<noteq> None) = is_donor row r"
proof (cases "height r")
  case None
  then show ?thesis by (simp add: is_donor_def split: option.splits)
next
  case hr: (Some h)
  show ?thesis
  proof (cases "height row")
    case None
    then show ?thesis using hr by (simp add: is_donor_def add_nan_def split: option.splits)
  next
    case h0: (Some h0)
    show ?thesis
    proof (cases "weight r")
      case None
      then show ?thesis using hr h0 by (simp add: is_donor_def add_nan_def split: option.splits)
    next
      case wr: (Some w)
      show ?thesis
      proof (cases "weight row")
        case None
        then show ?thesis using hr h0 wr
          by (simp add: is_donor_def add_nan_def split: option.splits)
      next
        case w0: (Some w0)
        show ?thesis
        proof (cases "age r")
          case None
          then show ?thesis using hr h0 wr w0 by (simp add: is_donor_def add_nan_def)
        next
          case (Some a)
          have "(h0 - 5 / 2 \<le> h \<and> h \<le> h0 + 5 / 2) = (\<bar>h - h0\<bar> \<le> 5 / 2)" by linarith
          moreover have "(w0 - 2 \<le> w \<and> w \<le> w0 + 2) = (\<bar>w - w0\<bar> \<le> 2)" by linarith
          ultimately show ?thesis using hr h0 wr w0 Some
            unfolding is_donor_def add_nan_def by (simp del: abs_le_iff) linarith
        qed
      qed
    qed
  qed
qed

lemma is_donor_known: "is_donor row r \<Longrightarrow> age r \<noteq> None"
  by (auto simp: is_donor_def split: option.splits)

lemma dropna_known: "\<forall>r \<in> set rs. age r \<noteq> None \<Longrightarrow> dropna (map age rs) = map (the \<circ> age) rs"
  by (induction rs) (auto simp: dropna_def)

lemma age_subset_donor_ages:
  "dropna (map age (filter (\<lambda>r.
      ge_nan (height r) (add_nan (height row) (- (5 / 2)))
      \<and> le_nan (height r) (add_nan (height row) (5 / 2))
      \<and> ge_nan (weight r) (add_nan (weight row) (- 2))
      \<and> le_nan (weight r) (add_nan (weight row) 2)
      \<and> age r \<noteq> None) df)) = donor_ages df row"
  unfolding window_is_donor donor_ages_def
  using is_donor_known by (intro dropna_known) fastforce

lemma fill_age_eq:
  "fill_age df row =
     (if age row = None then
        if donor_ages df row = []
        then (case mean (map age df) of
                None \<Rightarrow> Inl ValueError
              | Some m \<Rightarrow> Inr (row\<lparr>age := Some (round_half_up m)\<rparr>))
        else Inr (row\<lparr>age := Some (round_half_up (median (donor_ages df row)))\<rparr>)
      else Inr row)"
  unfolding fill_age_def age_subset_donor_ages Let_def round_half_up_def by simp

lemma apply_rows_map: "\<forall>r \<in> set rs. f r = Inr (g r) \<Longrightarrow> apply_rows f rs = Inr (map g rs)"
  by (induction rs) simp_all

lemma mean_known:
  "\<exists>r \<in> set df. age r \<noteq> None \<Longrightarrow> mean (map age df) = Some (global_mean_age df)"
proof -
  assume "\<exists>r \<in> set df. age r \<noteq> None"
  then have "filter (\<lambda>a. a \<noteq> None) (map age df) \<noteq> []"
    by (auto simp: filter_empty_conv)
  then show ?thesis by (simp add: mean_def global_mean_age_def dropna_def Let_def)
qed

text \<open>With a known age in the table every missing age is filled.\<close>

lemma fill_age_with_known_age:
  assumes "\<exists>r \<in> set df. age r \<noteq> None"
  shows "apply_rows (fill_age df) df =
           Inr (map (\<lambda>row. if age row = None then row\<lparr>age := Some (imputed_age df row)\<rparr> else row) df)"
proof (rule apply_rows_map, rule ballI)
  fix row assume "row \<in> set df"
  show "fill_age df row = Inr (if age row = None then row\<lparr>age := Some (imputed_age df row)\<rparr> else row)"
    by (simp add: fill_age_eq mean_known [OF assms] imputed_age_def)
qed

text \<open>With no known age in the table, a record without age makes \<^verbatim>\<open>int\<close> raise.\<close>

lemma fill_age_none_known:
  assumes "\<forall>r \<in> set df. age r = None" and "age row = None"
  shows "fill_age df row = Inl ValueError"
proof -
  have "filter (is_donor row) df = []"
    using assms(1) is_donor_known by (fastforce simp: filter_empty_conv)
  then have d: "donor_ages df row = []" by (simp add: donor_ages_def)
  have "filter (\<lambda>a. a \<noteq> None) (map age df) = []"
    using assms(1) by (auto simp: filter_empty_conv)
  then have "mean (map age df) = None" by (simp add: mean_def dropna_def)
  then show ?thesis using d assms(2) by (simp add: fill_age_eq)
qed

text \<open>
  Claim C2, as amended.  When at least one record of the table has a known age,
  filling the ages succeeds, leaves the records with a known age as they are, and
  gives every record whose age is missing the age \<open>imputed_age\<close>: the median of the
  ages of its donors plus 0.5, truncated, when it has a donor, and the mean of the
  known ages plus 0.5, truncated, when it has none.  A record with a missing age is
  no donor, so the donors are other records.  When no age is known, filling the ages
  of a table that is not empty raises \<^verbatim>\<open>ValueError\<close>.
\<close>

theorem fill_age_imputes:
  "apply_rows (fill_age df) df =
     (if \<exists>r \<in> set df. age r \<noteq> None
      then Inr (map (\<lambda>row. if age row = None then row\<lparr>age := Some (imputed_age df row)\<rparr> else row) df)
      else if df = [] then Inr [] else Inl ValueError)"
proof (cases "\<exists>r \<in> set df. age r \<noteq> None")
  case True
  then show ?thesis using fill_age_with_known_age [OF True] by simp
next
  case False
  show ?thesis
  proof (cases df)
    case Nil
    then show ?thesis by simp
  next
    case (Cons row rows)
    have "fill_age df row = Inl ValueError"
      using False Cons by (intro fill_age_none_known) auto
    then have "apply_rows (fill_age df) (row # rows) = Inl ValueError" by simp
    then show ?thesis using False Cons by simp
  qed
qed

theorem fill_age_imputes_witness:
  "apply_rows
     (fill_age
       [\<lparr>age = None, height = Some 170, weight = Some 70, other = ()\<rparr>,
        \<lparr>age = Some 40, height = Some 172, weight = Some 71, other = ()\<rparr>,
        \<lparr>age = Some 45, height = Some (335 / 2), weight = Some 68, other = ()\<rparr>,
        \<lparr>age = Some 80, height = Some 150, weight = Some 68, other = ()\<rparr>,
        \<lparr>age = None, height = None, weight = Some 68, other = ()\<rparr>])
     [\<lparr>age = None, height = Some 170, weight = Some 70, other = ()\<rparr>,
      \<lparr>age = Some 40, height = Some 172, weight = Some 71, other = ()\<rparr>,
      \<lparr>age = Some 45, height = Some (335 / 2), weight = Some 68, other = ()\<rparr>,
      \<lparr>age = Some 80, height = Some 150, weight = Some 68, other = ()\<rparr>,
      \<lparr>age = None, height = None, weight = Some 68, other = ()\<rparr>] =
   Inr [\<lparr>age = Some 43, height = Some 170, weight = Some 70, other = ()\<rparr>,
        \<lparr>age = Some 40, height = Some 172, weight = Some 71, other = ()\<rparr>,
        \<lparr>age = Some 45, height = Some (335 / 2), weight = Some 68, other = ()\<rparr>,
        \<lparr>age = Some 80, height = Some 150, weight = Some 68, other = ()\<rparr>,
        \<lparr>age = Some 55, height = None, weight = Some 68, other = ()\<rparr>]"
proof -
  let ?df = "[\<lparr>age = None, height = Some 170, weight = Some 70, other = ()\<rparr>,
      \<lparr>age = Some 40, height = Some 172, weight = Some 71, other = ()\<rparr>,
      \<lparr>age = Some 45, height = Some (335 / 2), weight = Some 68, other = ()\<rparr>,
      \<lparr>age = Some 80, height = Some 150, weight = Some 68, other = ()\<rparr>,
      \<lparr>age = None, height = None, weight = Some 68, other = ()\<rparr>]"
  have h: "\<exists>r \<in> set ?df. age r \<noteq> None" by simp
  have d1: "donor_ages ?df \<lparr>age = None, height = Some 170, weight = Some 70, other = ()\<rparr> = [40, 45]"
    by (simp add: donor_ages_def is_donor_def)
  have d2: "donor_ages ?df \<lparr>age = None, height = None, weight = Some 68, other = ()\<rparr> = []"
    by (simp add: donor_ages_def is_donor_def)
  have m: "median [40, 45] = 85 / 2" by (simp add: median_def)
  have g: "global_mean_age ?df = 55" by (simp add: global_mean_age_def dropna_def)
  have r1: "round_half_up (85 / 2) = 43" and r2: "round_half_up 55 = 55"
    by code_simp+
  from fill_age_imputes [of ?df] h show ?thesis
    by (simp add: imputed_age_def d1 d2 m g r1 r2)
qed

text \<open>
  Claim C2 as stated fails on a table in which no age is known: the record has no
  donor, the mean of the ages is NaN, and \<^verbatim>\<open>int\<close> raises.
\<close>

theorem fill_age_no_known_age_counterexample:
  "apply_rows (fill_age [\<lparr>age = None, height = Some 170, weight = Some 70, other = ()\<rparr>])
     [\<lparr>age = None, height = Some 170, weight = Some 70, other = ()\<rparr>] = Inl ValueError"
  by (simp add: fill_age_def dropna_def mean_def)

section \<open>Properties of the column check\<close>

lemma required_not_dropped:
  "''age'' \<notin> set DROP_COLUMNS" "''height'' \<notin> set DROP_COLUMNS" "''weight'' \<notin> set DROP_COLUMNS"
  by (simp_all add: DROP_COLUMNS_def)

lemma fill_age_height_weight_missing:
  "\<not> set [''age'', ''height'', ''weight''] \<subseteq> set (columns df) \<Longrightarrow>
   fill_age_height_weight fill_height_weight df = Inl ValueError"
  unfolding fill_age_height_weight_def Let_def Diff_eq_empty_iff by auto

text \<open>
  Claim C6, as amended.  When one of the columns age, height and weight is absent,
  \<open>format_df\<close> fails, whatever the rows hold and whatever the later steps would do:
  with the \<^verbatim>\<open>ValueError\<close> of the check of the required columns when the table has
  every column of \<^verbatim>\<open>DROP_COLUMNS\<close>, and with the \<^verbatim>\<open>KeyError\<close> of the column drop, which
  runs before the check, when it does not.
\<close>

theorem format_df_missing_required:
  assumes "\<not> set [''age'', ''height'', ''weight''] \<subseteq> set (columns df)"
  shows "format_df fill_height_weight encode df =
           (if set DROP_COLUMNS \<subseteq> set (columns df) then Inl ValueError else Inl KeyError)"
proof (cases "set DROP_COLUMNS \<subseteq> set (columns df)")
  case False
  then show ?thesis by (simp add: format_df_def drop_columns_def)
next
  case True
  let ?dropped = "df\<lparr>columns := filter (\<lambda>c. c \<notin> set DROP_COLUMNS) (columns df)\<rparr>"
  have "\<not> set [''age'', ''height'', ''weight''] \<subseteq> set (columns ?dropped)"
    using assms required_not_dropped by auto
  then have "fill_age_height_weight fill_height_weight ?dropped = Inl ValueError"
    by (rule fill_age_height_weight_missing)
  then show ?thesis using True by (simp add: format_df_def drop_columns_def)
qed

theorem format_df_missing_required_witness:
  "format_df Inr Inr \<lparr>columns = DROP_COLUMNS @ [''sex'', ''height'', ''weight''],
                      rows = [\<lparr>age = None, height = Some 170, weight = Some 70, other = ()\<rparr>]\<rparr>
     = Inl ValueError"
proof -
  have "\<not> set [''age'', ''height'', ''weight''] \<subseteq>
      set (columns \<lparr>columns = DROP_COLUMNS @ [''sex'', ''height'', ''weight''],
                     rows = [\<lparr>age = None, height = Some 170, weight = Some 70, other = ()\<rparr>]\<rparr>)"
    using required_not_dropped(1) by simp
  from format_df_missing_required [OF this, of Inr Inr] show ?thesis by auto
qed

text \<open>
  Claim C6 as stated fails on a table without the age column that also lacks a
  column of \<^verbatim>\<open>DROP_COLUMNS\<close>: the drop is attempted first, and the error that
  surfaces is its \<^verbatim>\<open>KeyError\<close>, not the error of the required columns.
\<close>

theorem format_df_drop_first_counterexample:
  "format_df Inr Inr \<lparr>columns = [''sex'', ''height'', ''weight''],
                      rows = [\<lparr>age = None, height = Some 170, weight = Some 70, other = ()\<rparr>]\<rparr>
     = Inl KeyError"
  by (simp add: format_df_def drop_columns_def DROP_COLUMNS_def)

section \<open>Properties of the Trainer\<close>

text \<open>
  Claim C4, as amended.  \<open>train\<close> has no check of its own on the classes of
  \<open>y_train\<close>.  Without a grid it fails exactly when the fit of the forest fails, with
  that error.  With a grid it fails exactly when the grid search fails, when the best
  parameters already have a \<^verbatim>\<open>random_state\<close>, or when the final fit fails.
\<close>

theorem train_fails_only_in_library:
  "(snd (train rf_fit grid_search_fit X_train y_train None) = Inl e) =
     (rf_fit [(''n_estimators'', PInt 100), (''random_state'', PInt 42)] X_train y_train = Inl e)
   \<and> (snd (train rf_fit grid_search_fit X_train y_train (Some grid)) = Inl e) =
     (case grid_search_fit (inject_class_weight grid (class_weight y_train)) X_train y_train of
        Inl e' \<Rightarrow> e' = e
      | Inr best_params \<Rightarrow>
          if ''random_state'' \<in> fst ` set best_params then e = TypeError
          else rf_fit (best_params @ [(''random_state'', PInt 42)]) X_train y_train = Inl e)"
  by (auto simp: train_def Let_def split: sum.splits)

theorem train_fails_only_in_library_witness:
  "snd (train forest_fit (\<lambda>grid X y. Inl ValueError) ([] :: int list list) [] None) = Inl ValueError
   \<and> snd (train forest_fit (\<lambda>grid X y. Inl ValueError) [[170 :: int, 70], [180, 80]] [0, 1]
          (Some [(''n_estimators'', [PInt 50, PInt 100])])) = Inl ValueError"
proof -
  have a: "forest_fit [(''n_estimators'', PInt 100), (''random_state'', PInt 42)]
             ([] :: int list list) [] = Inl ValueError"
    by (simp add: forest_fit_def)
  have b: "(case (Inl ValueError :: py_error + rf_params) of
              Inl e' \<Rightarrow> e' = ValueError
            | Inr best_params \<Rightarrow>
                if ''random_state'' \<in> fst ` set best_params then ValueError = TypeError
                else forest_fit (best_params @ [(''random_state'', PInt 42)])
                       [[170 :: int, 70], [180, 80]] [0, 1] = Inl ValueError)"
    by simp
  from train_fails_only_in_library [where rf_fit = forest_fit
      and grid_search_fit = "\<lambda>grid X y. Inl ValueError" and X_train = "[] :: int list list"
      and y_train = "[]" and e = ValueError] a
  have 1: "snd (train forest_fit (\<lambda>grid X y. Inl ValueError) ([] :: int list list) [] None) = Inl ValueError"
    by blast
  from train_fails_only_in_library [where rf_fit = forest_fit
      and grid_search_fit = "\<lambda>grid X y. Inl ValueError" and X_train = "[[170 :: int, 70], [180, 80]]"
      and y_train = "[0, 1]" and e = ValueError
      and grid = "[(''n_estimators'', [PInt 50, PInt 100])]"] b
  have 2: "snd (train forest_fit (\<lambda>grid X y. Inl ValueError) [[170 :: int, 70], [180, 80]] [0, 1]
          (Some [(''n_estimators'', [PInt 50, PInt 100])])) = Inl ValueError"
    by blast
  from 1 2 show ?thesis by (rule conjI)
qed

text \<open>
  Claim C4 as stated fails on a training set with a single class: the forest is
  fitted and returned.
\<close>

theorem train_single_class_counterexample:
  "snd (train forest_fit (\<lambda>grid X y. Inl ValueError) [[170 :: int, 70], [180, 80], [160, 60]] [0, 0, 0] None) =
     Inr \<lparr>params = [(''n_estimators'', PInt 100), (''random_state'', PInt 42)], classes = [0]\<rparr>"
  by (simp add: train_def forest_fit_def)

lemma map_other_keys:
  "k \<notin> fst ` set al \<Longrightarrow> map (\<lambda>(k', w). if k' = k then (k', f w) else (k', w)) al = al"
  by (induction al) auto

lemma update_as_map:
  "distinct (map fst al) \<Longrightarrow> map_of al k = Some v \<Longrightarrow>
   AList.update k (f v) al = map (\<lambda>(k', w). if k' = k then (k', f w) else (k', w)) al"
proof (induction al)
  case Nil
  then show ?case by simp
next
  case (Cons p al)
  obtain k' w where p: "p = (k', w)" by (cases p)
  show ?case
  proof (cases "k' = k")
    case True
    then have "k \<notin> fst ` set al" using Cons.prems(1) p by auto
    then show ?thesis using True p Cons.prems(2) by (simp add: map_other_keys)
  next
    case False
    then show ?thesis using p Cons by simp
  qed
qed

text \<open>
  Claim C9, as amended.  For a grid with distinct keys, the grid that the caller
  holds after \<open>train\<close> is the grid passed in, except that the computed class-weight
  map has been appended to the candidates of \<^verbatim>\<open>"class_weight"\<close> when that list is
  present and not empty.  So the grid is unchanged exactly when it has no
  \<^verbatim>\<open>"class_weight"\<close> entry or an empty one; an absent grid stays absent.
\<close>

theorem train_param_grid_after:
  assumes "distinct (map fst grid)"
  shows "fst (train rf_fit grid_search_fit X_train y_train None) = None \<and>
         fst (train rf_fit grid_search_fit X_train y_train (Some grid)) =
           Some (map (\<lambda>(k, candidates).
                   if k = ''class_weight'' \<and> candidates \<noteq> []
                   then (k, candidates @ [PClassWeight (class_weight y_train)])
                   else (k, candidates)) grid) \<and>
         (fst (train rf_fit grid_search_fit X_train y_train (Some grid)) = Some grid) =
           (map_of grid ''class_weight'' = None \<or> map_of grid ''class_weight'' = Some [])"
proof -
  let ?w = "PClassWeight (class_weight y_train)"
  let ?m = "map (\<lambda>(k, candidates).
                   if k = ''class_weight'' \<and> candidates \<noteq> []
                   then (k, candidates @ [?w])
                   else (k, candidates)) grid"
  let ?after = "fst (train rf_fit grid_search_fit X_train y_train (Some grid))"
  show ?thesis
  proof (cases "map_of grid ''class_weight''")
    case None
    then have "''class_weight'' \<notin> fst ` set grid" by (simp add: map_of_eq_None_iff)
    then have "?m = grid" by (induction grid) auto
    then show ?thesis using None by (simp add: train_def inject_class_weight_def Let_def)
  next
    case (Some cs)
    show ?thesis
    proof (cases cs)
      case Nil
      have "(k, c) \<in> set grid \<Longrightarrow> k = ''class_weight'' \<Longrightarrow> c = []" for k c
        using eq_key_imp_eq_value [OF assms _ map_of_SomeD [OF Some], of c] Nil by simp
      then have "?m = grid" by (induction grid) auto
      then show ?thesis using Some Nil by (simp add: train_def inject_class_weight_def Let_def)
    next
      case (Cons c cs')
      have a: "?after = Some (AList.update ''class_weight'' (cs @ [?w]) grid)"
        using Some Cons by (simp add: train_def inject_class_weight_def Let_def)
      have "AList.update ''class_weight'' (cs @ [?w]) grid =
          map (\<lambda>(k', w). if k' = ''class_weight'' then (k', w @ [?w]) else (k', w)) grid"
        using update_as_map [OF assms Some, of "\<lambda>v. v @ [?w]"] .
      also have "\<dots> = ?m"
      proof (rule map_cong [OF refl])
        fix p assume pin: "p \<in> set grid"
        obtain k c where p: "p = (k, c)" by (cases p)
        have "c = cs" if "k = ''class_weight''"
          using eq_key_imp_eq_value [OF assms _ map_of_SomeD [OF Some], of c] pin p that by simp
        then show "(case p of (k', w) \<Rightarrow> if k' = ''class_weight'' then (k', w @ [?w]) else (k', w)) =
            (case p of (k, candidates) \<Rightarrow> if k = ''class_weight'' \<and> candidates \<noteq> []
               then (k, candidates @ [?w]) else (k, candidates))"
          using Cons p by auto
      qed
      finally have b: "AList.update ''class_weight'' (cs @ [?w]) grid = ?m" .
      have "map_of (AList.update ''class_weight'' (cs @ [?w]) grid) ''class_weight'' = Some (cs @ [?w])"
        by (simp add: update_conv')
      then have "AList.update ''class_weight'' (cs @ [?w]) grid \<noteq> grid"
        using Some by auto
      then show ?thesis using a b Some Cons by (simp add: train_def inject_class_weight_def Let_def)
    qed
  qed
qed

theorem train_param_grid_after_witness:
  "fst (train forest_fit (\<lambda>grid X y. Inl ValueError) [[170 :: int, 70], [180, 80]] [0, 1]
         (Some [(''n_estimators'', [PInt 50, PInt 100]), (''max_depth'', [PInt 20, PNone])])) =
     Some [(''n_estimators'', [PInt 50, PInt 100]), (''max_depth'', [PInt 20, PNone])]"
proof -
  have "distinct (map fst [(''n_estimators'', [PInt 50, PInt 100]), (''max_depth'', [PInt 20, PNone])])"
    by simp
  from train_param_grid_after [OF this, where rf_fit = forest_fit
      and grid_search_fit = "\<lambda>grid X y. Inl ValueError"
      and X_train = "[[170 :: int, 70], [180, 80]]" and y_train = "[0, 1]"]
  show ?thesis by simp
qed

text \<open>
  Claim C9 as stated fails on a grid with the candidate \<^verbatim>\<open>"balanced"\<close> for
  \<^verbatim>\<open>"class_weight"\<close>: after the call the caller's list has a second element.  (With
  two samples the 5-fold search raises; the list has been extended before.)
\<close>

theorem train_appends_to_grid_counterexample:
  "fst (train forest_fit (\<lambda>grid X y. Inl ValueError) [[170 :: int, 70], [180, 80]] [0, 1]
         (Some [(''n_estimators'', [PInt 50, PInt 100]), (''class_weight'', [PStr ''balanced''])])) =
     Some [(''n_estimators'', [PInt 50, PInt 100]),
           (''class_weight'', [PStr ''balanced'', PClassWeight [(0, Finite 2), (1, Finite 2)]])]
   \<and> fst (train forest_fit (\<lambda>grid X y. Inl ValueError) [[170 :: int, 70], [180, 80]] [0, 1]
         (Some [(''n_estimators'', [PInt 50, PInt 100]), (''class_weight'', [PStr ''balanced''])])) \<noteq>
     Some [(''n_estimators'', [PInt 50, PInt 100]), (''class_weight'', [PStr ''balanced''])]"
  by code_simp


section \<open>Properties of the Evaluator\<close>

text \<open>
  Claim C5.  The confusion matrix of \<open>create_reports\<close> should have a row and a column
  for each of the ten labels of \<open>CM_LABELS\<close>, and \<open>create_confusion_matrix\<close> draws it
  against these ten labels.  But \<^verbatim>\<open>confusion_matrix\<close> is called without \<^verbatim>\<open>labels\<close>
  and uses the labels that occur: true labels 0, 1, 0 with predictions 0, 1, 1 give
  a matrix of two rows and two columns, whatever the report is.
\<close>

theorem confusion_matrix_present_labels_only:
  "create_reports (\<lambda>y y_pred. Inr report) [0, 1, 0] [0, 1, 1] =
     Inr (relabel (map fst report) report, [[1, 1], [0, 1]])
   \<and> length CM_LABELS = 10
   \<and> create_confusion_matrix [[1, 1], [0, 1]] =
       \<lparr>heat_z = [[0, 1], [1, 1]], heat_x = CM_LABELS, heat_y = rev CM_LABELS\<rparr>"
  by (simp add: create_reports_def confusion_matrix_def unique_labels_def
      create_confusion_matrix_def CM_LABELS_def DIAGNOSI_MAP_def)

text \<open>
  \<open>create_report_table\<close> removes the three aggregate keys from the report of its
  caller.
\<close>

lemma create_report_table_pops:
  assumes "map_of report ''accuracy'' = Some a"
      and "map_of report ''macro avg'' = Some m"
      and "map_of report ''weighted avg'' = Some w"
  shows "fst (create_report_table report) =
     AList.delete ''weighted avg'' (AList.delete ''macro avg'' (AList.delete ''accuracy'' report))"
proof -
  have "map_of (AList.delete ''accuracy'' report) ''macro avg'' = Some m"
    using assms(2) by (simp add: delete_conv')
  moreover have "map_of (AList.delete ''macro avg'' (AList.delete ''accuracy'' report)) ''weighted avg'' = Some w"
    using assms(3) by (simp add: delete_conv')
  ultimately show ?thesis using assms(1)
    by (simp add: create_report_table_def pop_def)
qed

text \<open>
  The test \<^verbatim>\<open>vv > 1\<close> is what tells a count from a fraction: a support of 0 or of
  at least 2 is shown as it is, a support of exactly 1 is shown as 100.
\<close>

lemma scale_value_support:
  "scale_value (of_nat n) = (if n = 1 then 100 else of_nat n)"
proof -
  have z: "py_round2 0 = 0" and h: "py_round2 100 = 100"
    by (simp_all add: py_round2_def round_half_even_def)
  consider "n = 0" | "n = 1" | "2 \<le> n" by linarith
  then show ?thesis
  proof cases
    case 3
    then have "(1 :: rat) < of_nat n" by simp
    then show ?thesis using 3 by (simp add: scale_value_def)
  qed (simp_all add: scale_value_def z h)
qed

text \<open>
  Claim C7.  In the table of \<open>create_report_table\<close> the precision, recall and
  f1-score of a class are multiplied by 100 and rounded, and the support should stay
  the count it is.  For the report of true labels 0, 0, 1 predicted as 0, 0, 1 the
  class with one sample gets the support 100 in the last column; the class with two
  samples keeps its 2.
\<close>

theorem report_table_support_one_scaled:
  "snd (create_report_table
     [(''accuracy'', Accuracy 1),
      (''macro avg'', Metrics \<lparr>precision = 1, recall = 1, f1_score = 1, support = 3\<rparr>),
      (''weighted avg'', Metrics \<lparr>precision = 1, recall = 1, f1_score = 1, support = 3\<rparr>),
      (''Sinus Rhythm'', Metrics \<lparr>precision = 1, recall = 1, f1_score = 1, support = 2\<rparr>),
      (''Atrial Fibrillation'', Metrics \<lparr>precision = 1, recall = 1, f1_score = 1, support = 1\<rparr>)]) =
   Inr \<lparr>header_values = [[], ''precision (%)'', ''recall (%)'', ''f1-score (%)'', ''support''],
        cells_values =
          [[Text ''Sinus Rhythm'', Text ''Atrial Fibrillation'', Text ''macro avg'',
            Text ''weighted avg'', Text []],
           [Number 100, Number 100, Number 100, Number 100, Text []],
           [Number 100, Number 100, Number 100, Number 100, Text []],
           [Number 100, Number 100, Number 100, Number 100, Text ''accuracy''],
           [Number 2, Number 100, Number 3, Number 3, Percent 100]]\<rparr>"
  by code_simp

end
